theory Spec2Isabelle
  imports Main
begin

section \<open>The audiobait API client (src/api/api.go)\<close>

text \<open>
  A shallow embedding of the Go package \<open>api\<close>: the session object \<open>CacophonyAPI\<close>, its
  methods \<open>newToken\<close>, \<open>GetSchedule\<close>, \<open>GetFile\<close>, \<open>getFileFromJWT\<close>,
  \<open>GetFilesFromSchedule\<close> and \<open>ReportEvent\<close>, and the error type \<open>Error\<close> with
  \<open>IsPermanentError\<close>.  Go strings and byte slices are \<open>string\<close> (lists of bytes), Go
  \<open>int\<close> is \<open>int\<close> (no arithmetic is done on it in this package), a Go \<open>error\<close> result is
  an \<open>error option\<close> (\<open>None\<close> is \<open>nil\<close>).
\<close>

subsection \<open>Error values\<close>

text \<open>
  A non-nil Go \<open>error\<close> is either a pointer to this package's \<open>Error\<close> struct
  (\<open>ApiError message permanent\<close>) or a value of any other dynamic type (\<open>Plain text\<close>:
  the results of \<open>errors.New\<close>, \<open>fmt.Errorf\<close> and the errors of the standard library),
  of which only the text of \<open>Error()\<close> is kept.  A nil \<open>*Error\<close> pointer stored in an
  interface is not a value of the model: the package never builds one.
\<close>

datatype error = Plain string | ApiError string bool

fun Error_text :: "error \<Rightarrow> string" where
  "Error_text (Plain m) = m"
| "Error_text (ApiError m p) = m"

text \<open>The method \<open>Permanent\<close> of \<open>*Error\<close>; no other error has it.\<close>

fun Permanent :: "error \<Rightarrow> bool" where
  "Permanent (ApiError m p) = p"

text \<open>
  \<open>IsPermanentError\<close>: false on \<open>nil\<close>, the flag of an \<open>*Error\<close>, and true on every other
  error (the type assertion fails).
\<close>

fun IsPermanentError :: "error option \<Rightarrow> bool" where
  "IsPermanentError None = False"
| "IsPermanentError (Some (ApiError m p)) = Permanent (ApiError m p)"
| "IsPermanentError (Some (Plain m)) = True"

definition isHTTPSuccess :: "int \<Rightarrow> bool" where
  "isHTTPSuccess code = (code \<ge> 200 \<and> code < 300)"

definition isHTTPClientError :: "int \<Rightarrow> bool" where
  "isHTTPClientError code = (code \<ge> 400 \<and> code < 500)"

definition temporaryError :: "error \<Rightarrow> error" where
  "temporaryError err = ApiError (Error_text err) False"

text \<open>
  What a call does: it returns, or it panics (a run-time panic of Go: a nil map
  written, a nil pointer dereferenced).
\<close>

datatype 'a outcome = Return 'a | Panic string

subsection \<open>Bytes and decimal numerals\<close>

definition byte :: "char \<Rightarrow> int" where
  "byte c = of_char c"

definition is_space :: "char \<Rightarrow> bool" where
  "is_space c = (c = CHR '' '' \<or> c = CHR 0x09 \<or> c = CHR 0x0D \<or> c = CHR 0x0A)"

definition is_digit :: "char \<Rightarrow> bool" where
  "is_digit c = (48 \<le> byte c \<and> byte c \<le> 57)"

definition is_hex :: "char \<Rightarrow> bool" where
  "is_hex c = (is_digit c \<or> (97 \<le> byte c \<and> byte c \<le> 102) \<or> (65 \<le> byte c \<and> byte c \<le> 70))"

definition digit_char :: "int \<Rightarrow> char" where
  "digit_char d = ''0123456789'' ! nat (d mod 10)"

text \<open>The decimal digits of a number that is not negative.\<close>

function decimal :: "int \<Rightarrow> string" where
  "decimal n = (if n < 10 then [digit_char n] else decimal (n div 10) @ [digit_char (n mod 10)])"
  by pat_completeness auto
termination
  by (relation "measure nat") auto

declare decimal.simps [simp del]

text \<open>\<open>strconv.Itoa\<close>, and \<open>%d\<close> of \<open>fmt\<close> on an \<open>int\<close>.\<close>

definition Itoa :: "int \<Rightarrow> string" where
  "Itoa i = (if i < 0 then CHR ''-'' # decimal (- i) else decimal i)"

text \<open>\<open>strings.Join\<close>.\<close>

fun join :: "string \<Rightarrow> string list \<Rightarrow> string" where
  "join sep [] = []"
| "join sep [x] = x"
| "join sep (x # y # ys) = x @ sep @ join sep (y # ys)"

text \<open>Comparison of Go strings: lexicographic on the bytes.\<close>

fun bytes_less :: "string \<Rightarrow> string \<Rightarrow> bool" where
  "bytes_less [] [] = False"
| "bytes_less [] (y # ys) = True"
| "bytes_less (x # xs) [] = False"
| "bytes_less (x # xs) (y # ys) = (byte x < byte y \<or> (x = y \<and> bytes_less xs ys))"

subsection \<open>JSON syntax, as the scanner of encoding/json accepts it\<close>

text \<open>
  \<open>json.Unmarshal\<close> first checks that its whole input is one JSON value between optional
  white space.  The check is modelled in full: a lexer for the tokens and a pushdown
  automaton over them, with the scanner's limit of 10000 on the nesting of arrays and
  objects.  String and number tokens keep the text of the literal.
\<close>

datatype token =
  TLBrace | TRBrace | TLBrack | TRBrack | TColon | TComma
  | TStr string | TNum string | TTrue | TFalse | TNull

text \<open>
  The text of a string literal after its opening quote: up to the closing quote, no byte
  below 0x20, a backslash only before a quote, a backslash, a slash, one of the letters
  \<open>b f n r t\<close>, or \<open>u\<close> and four hexadecimal digits.  Returns the text between the quotes and the input after them.
\<close>

fun scan_string :: "string \<Rightarrow> string \<Rightarrow> (string \<times> string) option" where
  "scan_string acc [] = None"
| "scan_string acc (c # cs) =
     (if c = CHR 0x22 then Some (acc, cs)
      else if c = CHR 0x5C then
        (case cs of
           [] \<Rightarrow> None
         | e # cs' \<Rightarrow>
             if e = CHR ''u'' then
               (if 4 \<le> length cs' \<and> list_all is_hex (take 4 cs')
                then scan_string (acc @ c # e # take 4 cs') (drop 4 cs') else None)
             else if e \<in> set [CHR 0x22, CHR 0x5C, CHR ''/'', CHR ''b'', CHR ''f'', CHR ''n'', CHR ''r'', CHR ''t'']
             then scan_string (acc @ [c, e]) cs'
             else None)
      else if byte c < 32 then None
      else scan_string (acc @ [c]) cs)"

text \<open>
  The number grammar, as the states of the scanner: \<open>-? (0 | [1-9][0-9]*) (. [0-9]+)?
  ([eE] [+-]? [0-9]+)?\<close>.
\<close>

datatype nstate = NStart | NNeg | NZero | NInt | NDot | NFrac | NE | NESign | NExp

definition nstep :: "nstate \<Rightarrow> char \<Rightarrow> nstate option" where
  "nstep s c =
     (case s of
        NStart \<Rightarrow> if c = CHR ''-'' then Some NNeg else if c = CHR ''0'' then Some NZero
                  else if is_digit c then Some NInt else None
      | NNeg \<Rightarrow> if c = CHR ''0'' then Some NZero else if is_digit c then Some NInt else None
      | NZero \<Rightarrow> if c = CHR ''.'' then Some NDot else if c = CHR ''e'' \<or> c = CHR ''E'' then Some NE else None
      | NInt \<Rightarrow> if is_digit c then Some NInt else if c = CHR ''.'' then Some NDot
                else if c = CHR ''e'' \<or> c = CHR ''E'' then Some NE else None
      | NDot \<Rightarrow> if is_digit c then Some NFrac else None
      | NFrac \<Rightarrow> if is_digit c then Some NFrac else if c = CHR ''e'' \<or> c = CHR ''E'' then Some NE else None
      | NE \<Rightarrow> if c = CHR ''+'' \<or> c = CHR ''-'' then Some NESign else if is_digit c then Some NExp else None
      | NESign \<Rightarrow> if is_digit c then Some NExp else None
      | NExp \<Rightarrow> if is_digit c then Some NExp else None)"

fun nrun :: "nstate \<Rightarrow> string \<Rightarrow> nstate option" where
  "nrun s [] = Some s"
| "nrun s (c # cs) = (case nstep s c of None \<Rightarrow> None | Some s' \<Rightarrow> nrun s' cs)"

definition valid_number :: "string \<Rightarrow> bool" where
  "valid_number lit = (nrun NStart lit \<in> {Some NZero, Some NInt, Some NFrac, Some NExp})"

definition is_numchar :: "char \<Rightarrow> bool" where
  "is_numchar c = (is_digit c \<or> c \<in> set [CHR ''.'', CHR ''e'', CHR ''E'', CHR ''+'', CHR ''-''])"

definition cons_tok :: "token \<Rightarrow> token list option \<Rightarrow> token list option" where
  "cons_tok t r = map_option ((#) t) r"

lemma scan_string_rest: "scan_string acc cs = Some (s, r) \<Longrightarrow> length r < Suc (length cs)"
  by (induction acc cs rule: scan_string.induct) (auto split: if_splits list.splits)

function lex :: "string \<Rightarrow> token list option" where
  "lex [] = Some []"
| "lex (c # cs) =
     (if is_space c then lex cs
      else if c = CHR ''{'' then cons_tok TLBrace (lex cs)
      else if c = CHR ''}'' then cons_tok TRBrace (lex cs)
      else if c = CHR ''['' then cons_tok TLBrack (lex cs)
      else if c = CHR '']'' then cons_tok TRBrack (lex cs)
      else if c = CHR '':'' then cons_tok TColon (lex cs)
      else if c = CHR '','' then cons_tok TComma (lex cs)
      else if c = CHR 0x22 then
        (case scan_string [] cs of
           None \<Rightarrow> None
         | Some (s, r) \<Rightarrow> cons_tok (TStr s) (lex r))
      else if c = CHR ''-'' \<or> is_digit c then
        (if valid_number (c # takeWhile is_numchar cs)
         then cons_tok (TNum (c # takeWhile is_numchar cs)) (lex (dropWhile is_numchar cs))
         else None)
      else if take 4 (c # cs) = ''true'' then cons_tok TTrue (lex (drop 3 cs))
      else if take 5 (c # cs) = ''false'' then cons_tok TFalse (lex (drop 4 cs))
      else if take 4 (c # cs) = ''null'' then cons_tok TNull (lex (drop 3 cs))
      else None)"
  by pat_completeness auto
termination
  by (relation "measure length")
     (auto dest: scan_string_rest simp: less_Suc_eq_le length_dropWhile_le)

declare lex.simps [simp del]

datatype jsyn =
  SNull | SBool bool | SNum string | SStr string
  | SArr "jsyn list" | SObj "(string \<times> jsyn) list"

text \<open>
  The automaton: a stack of the open arrays and objects, each with the values read so
  far (an object also with the key whose value is awaited), and what may come next.
\<close>

datatype frame = FArr "jsyn list" | FObj "(string \<times> jsyn) list" string

datatype pstate = PValue | PArrStart | PObjStart | PKey | PColon | PAfter | PDone jsyn

definition maxNestingDepth :: nat where
  "maxNestingDepth = 10000"

definition complete :: "jsyn \<Rightarrow> frame list \<Rightarrow> frame list \<times> pstate" where
  "complete v st =
     (case st of
        [] \<Rightarrow> ([], PDone v)
      | FArr es # st' \<Rightarrow> (FArr (es @ [v]) # st', PAfter)
      | FObj ms k # st' \<Rightarrow> (FObj (ms @ [(k, v)]) k # st', PAfter))"

definition begin_value :: "frame list \<Rightarrow> token \<Rightarrow> (frame list \<times> pstate) option" where
  "begin_value st t =
     (case t of
        TLBrack \<Rightarrow> if length st < maxNestingDepth then Some (FArr [] # st, PArrStart) else None
      | TLBrace \<Rightarrow> if length st < maxNestingDepth then Some (FObj [] [] # st, PObjStart) else None
      | TStr s \<Rightarrow> Some (complete (SStr s) st)
      | TNum l \<Rightarrow> Some (complete (SNum l) st)
      | TTrue \<Rightarrow> Some (complete (SBool True) st)
      | TFalse \<Rightarrow> Some (complete (SBool False) st)
      | TNull \<Rightarrow> Some (complete SNull st)
      | _ \<Rightarrow> None)"

definition close_array :: "frame list \<Rightarrow> (frame list \<times> pstate) option" where
  "close_array st = (case st of FArr es # st' \<Rightarrow> Some (complete (SArr es) st') | _ \<Rightarrow> None)"

definition close_object :: "frame list \<Rightarrow> (frame list \<times> pstate) option" where
  "close_object st = (case st of FObj ms k # st' \<Rightarrow> Some (complete (SObj ms) st') | _ \<Rightarrow> None)"

definition read_key :: "frame list \<Rightarrow> token \<Rightarrow> (frame list \<times> pstate) option" where
  "read_key st t =
     (case t of
        TStr k \<Rightarrow> (case st of FObj ms k0 # st' \<Rightarrow> Some (FObj ms k # st', PColon) | _ \<Rightarrow> None)
      | _ \<Rightarrow> None)"

fun pstep :: "frame list \<times> pstate \<Rightarrow> token \<Rightarrow> (frame list \<times> pstate) option" where
  "pstep (st, PValue) t = begin_value st t"
| "pstep (st, PArrStart) t = (if t = TRBrack then close_array st else begin_value st t)"
| "pstep (st, PObjStart) t = (if t = TRBrace then close_object st else read_key st t)"
| "pstep (st, PKey) t = read_key st t"
| "pstep (st, PColon) t = (if t = TColon then Some (st, PValue) else None)"
| "pstep (st, PAfter) t =
     (case t of
        TComma \<Rightarrow>
          (case st of
             FArr es # st' \<Rightarrow> Some (st, PValue)
           | FObj ms k # st' \<Rightarrow> Some (st, PKey)
           | [] \<Rightarrow> None)
      | TRBrack \<Rightarrow> close_array st
      | TRBrace \<Rightarrow> close_object st
      | _ \<Rightarrow> None)"
| "pstep (st, PDone v) t = None"

fun prun :: "frame list \<times> pstate \<Rightarrow> token list \<Rightarrow> (frame list \<times> pstate) option" where
  "prun c [] = Some c"
| "prun c (t # ts) = (case pstep c t of None \<Rightarrow> None | Some c' \<Rightarrow> prun c' ts)"

text \<open>The JSON value that the whole input is, or \<open>None\<close> where the scanner reports a syntax error.\<close>

definition json_parse :: "string \<Rightarrow> jsyn option" where
  "json_parse s =
     (case lex s of
        None \<Rightarrow> None
      | Some ts \<Rightarrow>
          (case prun ([], PValue) ts of
             Some (st, PDone v) \<Rightarrow> Some v
           | _ \<Rightarrow> None))"

subsection \<open>Go values of JSON, and the codec\<close>

text \<open>
  What \<open>json.Unmarshal\<close> stores in an \<open>interface{}\<close>: \<open>nil\<close>, a \<open>bool\<close>, a \<open>float64\<close>, a
  \<open>string\<close>, a slice or a \<open>map[string]interface{}\<close>.  The package stores these values
  and writes them again, and does nothing else with them; a \<open>float64\<close> is therefore kept
  as the text that \<open>json.Marshal\<close> writes for it, which determines it.
  A Go map has no order and \<open>json.Marshal\<close> writes it with its keys sorted; the model
  keeps a map as an association list with distinct keys in increasing order, which
  \<open>map_assign\<close> (the assignment \<open>m[k] = v\<close>) maintains.  A slice of strings is the slice
  of its \<open>GString\<close>s: \<open>json.Marshal\<close> writes both alike.
\<close>

datatype gov =
  GNil | GBool bool | GFloat string | GString string
  | GSlice "gov list" | GMap "(string \<times> gov) list"

fun map_assign :: "string \<Rightarrow> 'v \<Rightarrow> (string \<times> 'v) list \<Rightarrow> (string \<times> 'v) list" where
  "map_assign k v [] = [(k, v)]"
| "map_assign k v ((k', v') # m) =
     (if k = k' then (k, v) # m
      else if bytes_less k k' then (k, v) # (k', v') # m
      else (k', v') # map_assign k v m)"

text \<open>
  The codec is computed where that is exact without floating point and without UTF-8:
  on an integer literal (no fraction, no exponent) of magnitude below \<open>2^53\<close> other than
  \<open>-0\<close>, whose \<open>float64\<close> is written as the same integer, and on strings of ASCII bytes
  without an escape by \<open>u\<close>.  Elsewhere it is a parameter, for which every theorem holds:
  the text written for the \<open>float64\<close> nearest to a number literal (\<open>float64_text\<close>), what
  unquoting makes of any other string literal (\<open>unquote_other\<close>; invalid UTF-8 is
  replaced), and how any other string is written (\<open>quote_other\<close>; this depends on the
  validity of its UTF-8 and, for backspace and form feed, on the version of Go).
\<close>

record codec =
  float64_text :: "string \<Rightarrow> string"
  unquote_other :: "string \<Rightarrow> string"
  quote_other :: "string \<Rightarrow> string"

definition digits_value :: "string \<Rightarrow> int" where
  "digits_value ds = foldl (\<lambda>a c. 10 * a + (byte c - 48)) 0 ds"

definition float64_of :: "string \<Rightarrow> int option" where
  "float64_of lit =
     (case lit of
        [] \<Rightarrow> None
      | c # ds \<Rightarrow>
          if c = CHR ''-'' then
            (if ds \<noteq> [] \<and> list_all is_digit ds \<and> 0 < digits_value ds \<and> digits_value ds < 2 ^ 53
             then Some (- digits_value ds) else None)
          else if list_all is_digit lit \<and> digits_value lit < 2 ^ 53
          then Some (digits_value lit) else None)"

text \<open>
  \<open>strconv.ParseFloat\<close> rounds to the nearest \<open>float64\<close>, ties to even, and reports a range
  error when that is infinite: when the magnitude of the literal is at least
  \<open>2^1024 - 2^970\<close>, half way from the largest \<open>float64\<close> to \<open>2^1024\<close>.  The magnitude
  of a literal of the grammar is \<open>m * 10^e\<close>, for \<open>m\<close> the digits of its integer and
  fraction parts and \<open>e\<close> its exponent less the number of fraction digits.
\<close>

definition number_parts :: "string \<Rightarrow> int \<times> int" where
  "number_parts lit =
     (let ds = (case lit of [] \<Rightarrow> [] | c # r \<Rightarrow> if c = CHR ''-'' then r else lit);
          ip = takeWhile is_digit ds;
          r1 = dropWhile is_digit ds;
          fp = (case r1 of [] \<Rightarrow> [] | c # r \<Rightarrow> if c = CHR ''.'' then takeWhile is_digit r else []);
          r2 = (case r1 of [] \<Rightarrow> [] | c # r \<Rightarrow> if c = CHR ''.'' then dropWhile is_digit r else r1);
          ex = (case r2 of
                  [] \<Rightarrow> 0
                | c # r \<Rightarrow>
                    (case r of
                       [] \<Rightarrow> 0
                     | sg # r' \<Rightarrow>
                         if sg = CHR ''-'' then - digits_value r'
                         else if sg = CHR ''+'' then digits_value r'
                         else digits_value r))
      in (digits_value (ip @ fp), ex - int (length fp)))"

definition float_overflows :: "string \<Rightarrow> bool" where
  "float_overflows lit =
     (case number_parts lit of
        (m, e) \<Rightarrow>
          if 0 \<le> e then 2 ^ 1024 - 2 ^ 970 \<le> m * 10 ^ nat e
          else (2 ^ 1024 - 2 ^ 970) * 10 ^ nat (- e) \<le> m)"

text \<open>
  The conversion of a number literal for an \<open>interface{}\<close>: \<open>None\<close> is the range error.
\<close>

definition convertNumber :: "codec \<Rightarrow> string \<Rightarrow> string option" where
  "convertNumber C lit =
     (if float_overflows lit then None
      else (case float64_of lit of
              Some n \<Rightarrow> Some (Itoa n)
            | None \<Rightarrow> Some (float64_text C lit)))"

definition unescape :: "char \<Rightarrow> char option" where
  "unescape e =
     (if e = CHR 0x22 \<or> e = CHR 0x5C \<or> e = CHR ''/'' then Some e
      else if e = CHR ''b'' then Some (CHR 0x08)
      else if e = CHR ''f'' then Some (CHR 0x0C)
      else if e = CHR ''n'' then Some (CHR 0x0A)
      else if e = CHR ''r'' then Some (CHR 0x0D)
      else if e = CHR ''t'' then Some (CHR 0x09)
      else None)"

fun unquote_ascii :: "string \<Rightarrow> string option" where
  "unquote_ascii [] = Some []"
| "unquote_ascii [c] = (if c \<noteq> CHR 0x5C \<and> byte c < 128 then Some [c] else None)"
| "unquote_ascii (c # e # cs) =
     (if c = CHR 0x5C then
        (case unescape e of
           None \<Rightarrow> None
         | Some d \<Rightarrow> map_option ((#) d) (unquote_ascii cs))
      else if byte c < 128 then map_option ((#) c) (unquote_ascii (e # cs))
      else None)"

definition unquote :: "codec \<Rightarrow> string \<Rightarrow> string" where
  "unquote C s = (case unquote_ascii s of Some t \<Rightarrow> t | None \<Rightarrow> unquote_other C s)"

text \<open>
  The value stored in an \<open>interface{}\<close>, or the first number literal that is out of
  range.  In an object a later member replaces an earlier one of the same key.
\<close>

fun to_interface :: "codec \<Rightarrow> jsyn \<Rightarrow> string + gov"
  and to_slice :: "codec \<Rightarrow> jsyn list \<Rightarrow> string + gov list"
  and to_map :: "codec \<Rightarrow> (string \<times> gov) list \<Rightarrow> (string \<times> jsyn) list \<Rightarrow> string + (string \<times> gov) list"
where
  "to_interface C SNull = Inr GNil"
| "to_interface C (SBool b) = Inr (GBool b)"
| "to_interface C (SNum l) = (case convertNumber C l of None \<Rightarrow> Inl l | Some t \<Rightarrow> Inr (GFloat t))"
| "to_interface C (SStr s) = Inr (GString (unquote C s))"
| "to_interface C (SArr es) = (case to_slice C es of Inl l \<Rightarrow> Inl l | Inr vs \<Rightarrow> Inr (GSlice vs))"
| "to_interface C (SObj ms) = (case to_map C [] ms of Inl l \<Rightarrow> Inl l | Inr m \<Rightarrow> Inr (GMap m))"
| "to_slice C [] = Inr []"
| "to_slice C (e # es) =
     (case to_interface C e of
        Inl l \<Rightarrow> Inl l
      | Inr v \<Rightarrow> (case to_slice C es of Inl l \<Rightarrow> Inl l | Inr vs \<Rightarrow> Inr (v # vs)))"
| "to_map C m [] = Inr m"
| "to_map C m ((k, e) # ms) =
     (case to_interface C e of
        Inl l \<Rightarrow> Inl l
      | Inr v \<Rightarrow> to_map C (map_assign (unquote C k) v m) ms)"

text \<open>
  \<open>json.Unmarshal(data, &details)\<close> for \<open>var details map[string]interface{}\<close>: a syntax
  error, a value that is neither an object nor \<open>null\<close>, or a number out of the range of
  \<open>float64\<close> is an error; \<open>null\<close> leaves the map nil and is no error; any other object
  fills a new map.  The text of a syntax error (which names the offending byte) is not
  reproduced.
\<close>

datatype unmarshalled = UError string | UMap "(string \<times> gov) list option"

definition cannot_unmarshal :: "string \<Rightarrow> string" where
  "cannot_unmarshal what =
     ''json: cannot unmarshal '' @ what @ '' into Go value of type map[string]interface {}''"

definition number_out_of_range :: "string \<Rightarrow> string" where
  "number_out_of_range lit =
     ''json: cannot unmarshal number '' @ lit @ '' into Go value of type float64''"

definition json_Unmarshal_map :: "codec \<Rightarrow> string \<Rightarrow> unmarshalled" where
  "json_Unmarshal_map C data =
     (case json_parse data of
        None \<Rightarrow> UError ''json: syntax error''
      | Some SNull \<Rightarrow> UMap None
      | Some (SBool b) \<Rightarrow> UError (cannot_unmarshal ''bool'')
      | Some (SNum l) \<Rightarrow> UError (cannot_unmarshal ''number'')
      | Some (SStr s) \<Rightarrow> UError (cannot_unmarshal ''string'')
      | Some (SArr es) \<Rightarrow> UError (cannot_unmarshal ''array'')
      | Some (SObj ms) \<Rightarrow>
          (case to_map C [] ms of
             Inl lit \<Rightarrow> UError (number_out_of_range lit)
           | Inr m \<Rightarrow> UMap (Some m)))"


text \<open>
  \<open>json.Marshal\<close>.  In a string the quote and the backslash are written after a
  backslash; line feed, carriage return and tab as a backslash and \<open>n\<close>, \<open>r\<close> or \<open>t\<close>; the
  characters \<open><\<close>, \<open>>\<close> and \<open>&\<close> as a backslash and \<open>u003c\<close>, \<open>u003e\<close> or \<open>u0026\<close>; the
  other bytes from 0x20 to 0x7F are copied.  A string with any other byte is written as
  the parameter says.  A map is written in the order of its list, which is the order of
  its keys.  Nothing here has an error: \<open>json.Marshal\<close> fails on none of these values.
\<close>

definition encode_char :: "char \<Rightarrow> string option" where
  "encode_char c =
     (if c = CHR 0x22 \<or> c = CHR 0x5C then Some [CHR 0x5C, c]
      else if c = CHR 0x0A then Some [CHR 0x5C, CHR ''n'']
      else if c = CHR 0x0D then Some [CHR 0x5C, CHR ''r'']
      else if c = CHR 0x09 then Some [CHR 0x5C, CHR ''t'']
      else if c = CHR ''<'' then Some (CHR 0x5C # ''u003c'')
      else if c = CHR ''>'' then Some (CHR 0x5C # ''u003e'')
      else if c = CHR ''&'' then Some (CHR 0x5C # ''u0026'')
      else if 32 \<le> byte c \<and> byte c < 128 then Some [c]
      else None)"

fun encode_chars :: "string \<Rightarrow> string option" where
  "encode_chars [] = Some []"
| "encode_chars (c # cs) =
     (case encode_char c of
        None \<Rightarrow> None
      | Some e \<Rightarrow> map_option ((@) e) (encode_chars cs))"

definition encode_string :: "codec \<Rightarrow> string \<Rightarrow> string" where
  "encode_string C s =
     (case encode_chars s of
        Some e \<Rightarrow> CHR 0x22 # e @ [CHR 0x22]
      | None \<Rightarrow> quote_other C s)"

fun json_Marshal :: "codec \<Rightarrow> gov \<Rightarrow> string"
  and marshal_elems :: "codec \<Rightarrow> gov list \<Rightarrow> string list"
  and marshal_members :: "codec \<Rightarrow> (string \<times> gov) list \<Rightarrow> string list"
where
  "json_Marshal C GNil = ''null''"
| "json_Marshal C (GBool b) = (if b then ''true'' else ''false'')"
| "json_Marshal C (GFloat t) = t"
| "json_Marshal C (GString s) = encode_string C s"
| "json_Marshal C (GSlice vs) = ''['' @ join '','' (marshal_elems C vs) @ '']''"
| "json_Marshal C (GMap m) = ''{'' @ join '','' (marshal_members C m) @ ''}''"
| "marshal_elems C [] = []"
| "marshal_elems C (v # vs) = json_Marshal C v # marshal_elems C vs"
| "marshal_members C [] = []"
| "marshal_members C ((k, v) # m) =
     (encode_string C k @ '':'' @ json_Marshal C v) # marshal_members C m"

subsection \<open>Time stamps\<close>

text \<open>
  A \<open>time.Time\<close> is an instant (seconds since the Unix epoch, and nanoseconds) with the
  offset of its location in seconds east of UTC.  \<open>Format(time.RFC3339)\<close> writes the
  civil date and time at that offset, without the nanoseconds, then \<open>Z\<close> at offset 0.
  The integers are unbounded here; Go's are 64 bits wide.
\<close>

record Time =
  unix :: int
  nsec :: nat
  zone_offset :: int

definition UTC :: "Time \<Rightarrow> Time" where
  "UTC t = t\<lparr>zone_offset := 0\<rparr>"

text \<open>The proleptic Gregorian year, month and day of a day number (day 0 is 1970-01-01).\<close>

definition civil_from_days :: "int \<Rightarrow> int \<times> int \<times> int" where
  "civil_from_days days =
     (let z = days + 719468;
          era = z div 146097;
          doe = z mod 146097;
          yoe = (doe - doe div 1460 + doe div 36524 - doe div 146096) div 365;
          y = yoe + era * 400;
          doy = doe - (365 * yoe + yoe div 4 - yoe div 100);
          mp = (5 * doy + 2) div 153;
          d = doy - (153 * mp + 2) div 5 + 1;
          m = (if mp < 10 then mp + 3 else mp - 9)
      in (if m \<le> 2 then y + 1 else y, m, d))"

definition pad2 :: "int \<Rightarrow> string" where
  "pad2 n = [digit_char (n div 10), digit_char n]"

definition pad4 :: "int \<Rightarrow> string" where
  "pad4 y =
     (let ds = decimal \<bar>y\<bar>
      in (if y < 0 then ''-'' else []) @ replicate (4 - length ds) (CHR ''0'') @ ds)"

definition zone_suffix :: "int \<Rightarrow> string" where
  "zone_suffix off =
     (if off = 0 then ''Z''
      else let zm = (if off < 0 then - ((- off) div 60) else off div 60)
           in (if zm < 0 then ''-'' else ''+'') @ pad2 (\<bar>zm\<bar> div 60) @ '':'' @ pad2 (\<bar>zm\<bar> mod 60))"

definition Format_RFC3339 :: "Time \<Rightarrow> string" where
  "Format_RFC3339 t =
     (let s = unix t + zone_offset t;
          secs = s mod 86400;
          (y, m, d) = civil_from_days (s div 86400)
      in pad4 y @ ''-'' @ pad2 m @ ''-'' @ pad2 d @ ''T''
         @ pad2 (secs div 3600) @ '':'' @ pad2 (secs mod 3600 div 60) @ '':'' @ pad2 (secs mod 60)
         @ zone_suffix (zone_offset t))"

definition formatTimestamp :: "Time \<Rightarrow> string" where
  "formatTimestamp t = Format_RFC3339 (UTC t)"

subsection \<open>Paths\<close>

text \<open>\<open>filepath.Clean\<close> and \<open>filepath.Join\<close> on Unix paths.\<close>

fun split_slash :: "string \<Rightarrow> string list" where
  "split_slash [] = [[]]"
| "split_slash (c # cs) =
     (if c = CHR ''/'' then [] # split_slash cs
      else (case split_slash cs of
              [] \<Rightarrow> [[c]]
            | x # xs \<Rightarrow> (c # x) # xs))"

fun clean_elems :: "bool \<Rightarrow> string list \<Rightarrow> string list \<Rightarrow> string list" where
  "clean_elems rooted acc [] = rev acc"
| "clean_elems rooted acc (e # es) =
     (if e = [] \<or> e = ''.'' then clean_elems rooted acc es
      else if e = ''..'' then
        (case acc of
           [] \<Rightarrow> if rooted then clean_elems rooted [] es else clean_elems rooted [e] es
         | a # acc' \<Rightarrow>
             if a = ''..'' then clean_elems rooted (e # acc) es
             else clean_elems rooted acc' es)
      else clean_elems rooted (e # acc) es)"

definition Clean :: "string \<Rightarrow> string" where
  "Clean p =
     (case p of
        [] \<Rightarrow> ''.''
      | c # cs \<Rightarrow>
          let out = join ''/'' (clean_elems (c = CHR ''/'') [] (split_slash p))
          in if c = CHR ''/'' then c # out else if out = [] then ''.'' else out)"

definition filepath_Join :: "string list \<Rightarrow> string" where
  "filepath_Join elems =
     (case dropWhile (\<lambda>e. e = []) elems of
        [] \<Rightarrow> []
      | es \<Rightarrow> Clean (join ''/'' es))"

subsection \<open>The world outside the package\<close>

text \<open>
  An HTTP request as the package builds it, and a response as the client hands it back:
  the body of a response is a stream that delivers \<open>data\<close> and then ends, or fails with
  \<open>read_error\<close>.
\<close>

record request =
  req_method :: string
  req_url :: string
  req_header :: "(string \<times> string) list"
  req_body :: string

record stream =
  data :: string
  read_error :: "string option"

record response =
  StatusCode :: int
  Status :: string
  Body :: stream

text \<open>
  The effects of the package, in the order in which they happen: a line logged, a request
  handed to the HTTP client, and the calls \<open>os.MkdirAll\<close>, \<open>os.Create\<close> and the writing of
  bytes to a created file.
\<close>

datatype event =
  Logged string
  | RoundTrip request
  | MkdirAll string
  | Create string
  | Write string string

record world =
  trace :: "event list"
  files :: "string \<rightharpoonup> string"
  dirs :: "string set"

text \<open>
  What the package does not decide is a parameter: whether \<open>net/http\<close> accepts a URL
  (\<open>url_error\<close>, the text of the error if it does not), what the HTTP client answers to a
  request after the events so far (a transport error, or a response), whether a call of
  the operating system fails, the parameters of the JSON codec, and what
  \<open>json.NewDecoder(body).Decode\<close> makes of a response body for each of the three
  response structs.  Every theorem holds for all of them.
\<close>

record tokenResponse =
  Success :: bool
  Messages :: "string list"
  Token :: string

record fileResponse =
  Jwt :: string

record Combo =
  From :: string
  Until :: string
  Waits :: "int list"
  Sounds :: "string list"
  Volumes :: "int list"

record Schedule =
  Combos :: "Combo list"
  AllSounds :: "int list"
  PlayNights :: int
  Description :: string

record scheduleResponse =
  Schedule_of :: Schedule

record env =
  url_error :: "string \<Rightarrow> string option"
  round_trip :: "event list \<Rightarrow> request \<Rightarrow> string + response"
  os_error :: "event list \<Rightarrow> event \<Rightarrow> string option"
  json_codec :: codec
  decode_tokenResponse :: "stream \<Rightarrow> string + tokenResponse"
  decode_fileResponse :: "stream \<Rightarrow> string + fileResponse"
  decode_scheduleResponse :: "stream \<Rightarrow> string + scheduleResponse"

definition emit :: "event \<Rightarrow> world \<Rightarrow> world" where
  "emit e w = w\<lparr>trace := trace w @ [e]\<rparr>"

text \<open>\<open>client.Do(req)\<close>: the request reaches the transport, which answers.\<close>

definition client_Do :: "env \<Rightarrow> request \<Rightarrow> world \<Rightarrow> (string + response) \<times> world" where
  "client_Do E req w = (round_trip E (trace w) req, emit (RoundTrip req) w)"

text \<open>
  \<open>http.Post\<close> and \<open>http.Get\<close>: the URL of the request is parsed first, and no request is
  sent if it is bad.
\<close>

definition http_send :: "env \<Rightarrow> request \<Rightarrow> world \<Rightarrow> (string + response) \<times> world" where
  "http_send E req w =
     (case url_error E (req_url req) of
        Some e \<Rightarrow> (Inl e, w)
      | None \<Rightarrow> client_Do E req w)"

text \<open>The directory and its parents: the path cut after each of its elements.\<close>

fun path_prefixes :: "string \<Rightarrow> string \<Rightarrow> string list" where
  "path_prefixes acc [] = (if acc = [] then [] else [acc])"
| "path_prefixes acc (c # cs) =
     (if c = CHR ''/'' \<and> acc \<noteq> [] \<and> acc \<noteq> ''/''
      then acc # path_prefixes (acc @ [c]) cs
      else path_prefixes (acc @ [c]) cs)"

definition os_MkdirAll :: "env \<Rightarrow> string \<Rightarrow> world \<Rightarrow> string option \<times> world" where
  "os_MkdirAll E p w =
     (case os_error E (trace w) (MkdirAll p) of
        Some e \<Rightarrow> (Some e, emit (MkdirAll p) w)
      | None \<Rightarrow> (None, emit (MkdirAll p) (w\<lparr>dirs := dirs w \<union> set (path_prefixes [] p)\<rparr>)))"

text \<open>\<open>os.Create\<close>: the file exists afterwards and is empty, whatever it held.\<close>

definition os_Create :: "env \<Rightarrow> string \<Rightarrow> world \<Rightarrow> string option \<times> world" where
  "os_Create E p w =
     (case os_error E (trace w) (Create p) of
        Some e \<Rightarrow> (Some e, emit (Create p) w)
      | None \<Rightarrow> (None, emit (Create p) (w\<lparr>files := (files w)(p \<mapsto> [])\<rparr>)))"

text \<open>
  \<open>io.Copy(out, body)\<close>: what the stream delivers is appended to the file, and the
  stream's error, if any, is the result.  A failing write to the open file is not
  modelled.
\<close>

definition io_Copy :: "string \<Rightarrow> stream \<Rightarrow> world \<Rightarrow> string option \<times> world" where
  "io_Copy p b w =
     (read_error b,
      emit (Write p (data b))
        (w\<lparr>files := (files w)(p \<mapsto> (case files w p of None \<Rightarrow> [] | Some old \<Rightarrow> old) @ data b)\<rparr>))"

text \<open>\<open>ioutil.ReadAll\<close>.\<close>

definition ReadAll :: "stream \<Rightarrow> string \<times> string option" where
  "ReadAll b = (data b, read_error b)"

subsection \<open>The session and its operations\<close>

record CacophonyAPI =
  serverURL :: string
  group_name :: string
  deviceName :: string
  password :: string
  token :: string
  justRegistered :: bool

definition Password :: "CacophonyAPI \<Rightarrow> string" where
  "Password api = password api"

definition JustRegistered :: "CacophonyAPI \<Rightarrow> bool" where
  "JustRegistered api = justRegistered api"

definition message :: "tokenResponse \<Rightarrow> string" where
  "message r = (if length (Messages r) > 0 then Messages r ! 0 else ''unknown'')"

text \<open>
  A method with a pointer receiver takes the session and the world and gives back its
  result with the session and the world as it leaves them.  The body of the
  authentication request is \<open>json.Marshal\<close> of a map of the two credentials, which has
  no error on a map of strings: the return after it has no branch in \<open>newToken\<close>.
\<close>

definition credentials :: "CacophonyAPI \<Rightarrow> gov" where
  "credentials api =
     GMap (map_assign ''password'' (GString (password api))
            (map_assign ''devicename'' (GString (deviceName api)) []))"

definition token_request :: "CacophonyAPI \<Rightarrow> string \<Rightarrow> request" where
  "token_request api payload =
     \<lparr>req_method = ''POST'', req_url = serverURL api @ ''/authenticate_device'',
      req_header = [(''Content-Type'', ''application/json'')], req_body = payload\<rparr>"

definition newToken ::
  "env \<Rightarrow> CacophonyAPI \<Rightarrow> world \<Rightarrow> error option outcome \<times> CacophonyAPI \<times> world" where
  "newToken E api w =
     (if password api = [] then (Return (Some (Plain ''no password set'')), api, w)
      else
        (let payload = json_Marshal (json_codec E) (credentials api)
         in case http_send E (token_request api payload) w of
              (Inl e, w') \<Rightarrow> (Return (Some (Plain e)), api, w')
            | (Inr postResp, w') \<Rightarrow>
                (case decode_tokenResponse E (Body postResp) of
                   Inl e \<Rightarrow> (Return (Some (Plain (''decode: '' @ e))), api, w')
                 | Inr resp \<Rightarrow>
                     if \<not> Success resp
                     then (Return (Some (Plain (''registration failed: '' @ message resp))), api, w')
                     else (Return None, api\<lparr>token := Token resp\<rparr>, w'))))"

text \<open>
  \<open>NewAPI\<close> builds the session from its four arguments, the other fields at their zero
  values, and asks for a token; it returns the session, or \<open>nil\<close> and the error.
\<close>

definition new_session :: "string \<Rightarrow> string \<Rightarrow> string \<Rightarrow> string \<Rightarrow> CacophonyAPI" where
  "new_session serverURL' group' deviceName' password' =
     \<lparr>serverURL = serverURL', group_name = group', deviceName = deviceName',
      password = password', token = [], justRegistered = False\<rparr>"

definition NewAPI ::
  "env \<Rightarrow> string \<Rightarrow> string \<Rightarrow> string \<Rightarrow> string \<Rightarrow> world
     \<Rightarrow> (CacophonyAPI option \<times> error option) outcome \<times> world" where
  "NewAPI E serverURL' group' deviceName' password' w =
     (let api = new_session serverURL' group' deviceName' password'
      in case newToken E api w of
           (Return None, api', w') \<Rightarrow> (Return (Some api', None), w')
         | (Return (Some err), api', w') \<Rightarrow> (Return (None, Some err), w')
         | (Panic m, api', w') \<Rightarrow> (Panic m, w'))"

definition file_request :: "CacophonyAPI \<Rightarrow> int \<Rightarrow> request" where
  "file_request api fileID =
     \<lparr>req_method = ''GET'', req_url = serverURL api @ ''/api/v1/files/'' @ Itoa fileID,
      req_header = [(''Authorization'', token api)], req_body = []\<rparr>"

definition signed_request :: "CacophonyAPI \<Rightarrow> string \<Rightarrow> request" where
  "signed_request api jwt =
     \<lparr>req_method = ''GET'', req_url = serverURL api @ ''/api/v1/signedUrl?jwt='' @ jwt,
      req_header = [], req_body = []\<rparr>"

definition getFileFromJWT ::
  "env \<Rightarrow> CacophonyAPI \<Rightarrow> string \<Rightarrow> string \<Rightarrow> world \<Rightarrow> error option outcome \<times> CacophonyAPI \<times> world" where
  "getFileFromJWT E api jwt path w =
     (case os_Create E path w of
        (Some e, w1) \<Rightarrow> (Return (Some (Plain e)), api, w1)
      | (None, w1) \<Rightarrow>
          (case http_send E (signed_request api jwt) w1 of
             (Inl e, w2) \<Rightarrow> (Return (Some (Plain e)), api, w2)
           | (Inr resp, w2) \<Rightarrow>
               if StatusCode resp \<noteq> 200
               then (Return (Some (Plain (''bad status: '' @ Status resp))), api, w2)
               else
                 (case io_Copy path (Body resp) w2 of
                    (Some e, w3) \<Rightarrow> (Return (Some (Plain e)), api, w3)
                  | (None, w3) \<Rightarrow> (Return None, api, w3))))"

text \<open>
  \<open>GetFile\<close> and \<open>GetSchedule\<close> drop the error of \<open>http.NewRequest\<close> and set a header on
  its result, which is \<open>nil\<close> when the URL is bad: a nil pointer is dereferenced.
\<close>

definition nil_dereference :: string where
  "nil_dereference = ''runtime error: invalid memory address or nil pointer dereference''"

definition GetFile ::
  "env \<Rightarrow> CacophonyAPI \<Rightarrow> int \<Rightarrow> string \<Rightarrow> world \<Rightarrow> error option outcome \<times> CacophonyAPI \<times> world" where
  "GetFile E api fileID path w =
     (case url_error E (req_url (file_request api fileID)) of
           Some e \<Rightarrow> (Panic nil_dereference, api, w)
         | None \<Rightarrow>
             (case client_Do E (file_request api fileID) w of
                (Inl e, w') \<Rightarrow> (Return (Some (Plain e)), api, w')
              | (Inr resp, w') \<Rightarrow>
                  (case decode_fileResponse E (Body resp) of
                     Inl e \<Rightarrow> (Return (Some (Plain e)), api, w')
                   | Inr fr \<Rightarrow> getFileFromJWT E api (Jwt fr) path w')))"

text \<open>The loop of \<open>GetFilesFromSchedule\<close> over \<open>schedule.AllSounds\<close>.\<close>

fun fetch_each ::
  "env \<Rightarrow> CacophonyAPI \<Rightarrow> string \<Rightarrow> int list \<Rightarrow> world \<Rightarrow> error option outcome \<times> CacophonyAPI \<times> world" where
  "fetch_each E api fileFolder [] w = (Return None, api, w)"
| "fetch_each E api fileFolder (fileID # rest) w =
     (case GetFile E api fileID (filepath_Join [fileFolder, Itoa fileID]) w of
        (Return None, api', w') \<Rightarrow> fetch_each E api' fileFolder rest w'
      | r \<Rightarrow> r)"

definition GetFilesFromSchedule ::
  "env \<Rightarrow> CacophonyAPI \<Rightarrow> Schedule \<Rightarrow> string \<Rightarrow> world \<Rightarrow> error option outcome \<times> CacophonyAPI \<times> world" where
  "GetFilesFromSchedule E api schedule fileFolder w =
     (case os_MkdirAll E fileFolder w of
        (Some e, w') \<Rightarrow> (Return (Some (Plain e)), api, w')
      | (None, w') \<Rightarrow> fetch_each E api fileFolder (AllSounds schedule) w')"

definition empty_Schedule :: Schedule where
  "empty_Schedule = \<lparr>Combos = [], AllSounds = [], PlayNights = 0, Description = []\<rparr>"

definition GetSchedule ::
  "env \<Rightarrow> CacophonyAPI \<Rightarrow> world \<Rightarrow> (Schedule \<times> error option) outcome \<times> CacophonyAPI \<times> world" where
  "GetSchedule E api w =
     (let w0 = emit (Logged ''Getting new schedule'') w;
          u = serverURL api @ ''/api/v1/schedules''
      in case url_error E u of
           Some e \<Rightarrow> (Panic nil_dereference, api, w0)
         | None \<Rightarrow>
             (case client_Do E \<lparr>req_method = ''GET'', req_url = u,
                     req_header = [(''Authorization'', token api)], req_body = []\<rparr> w0 of
                (Inl e, w') \<Rightarrow> (Return (empty_Schedule, Some (Plain e)), api, w')
              | (Inr resp, w') \<Rightarrow>
                  (case decode_scheduleResponse E (Body resp) of
                     Inl e \<Rightarrow> (Return (empty_Schedule, Some (Plain e)), api, w')
                   | Inr sr \<Rightarrow> (Return (Schedule_of sr, None), api, w'))))"

text \<open>
  \<open>ReportEvent\<close>.  The map is nil after \<open>json.Unmarshal\<close> of \<open>null\<close>, and the assignment
  \<open>details["dateTimes"] = dateTimes\<close> to a nil map panics.  \<open>json.Marshal\<close> has no error on
  a map that \<open>json.Unmarshal\<close> filled, so the return after it has no branch here.
\<close>

definition events_request :: "CacophonyAPI \<Rightarrow> string \<Rightarrow> request" where
  "events_request api jsonAll =
     \<lparr>req_method = ''POST'', req_url = serverURL api @ ''/api/v1/events'',
      req_header = [(''Content-Type'', ''application/json''), (''Authorization'', token api)],
      req_body = jsonAll\<rparr>"

definition report_response :: "response \<Rightarrow> error option" where
  "report_response resp =
     (if \<not> isHTTPSuccess (StatusCode resp) then
        (case ReadAll (Body resp) of
           (body, Some e) \<Rightarrow>
             Some (temporaryError (Plain (''request failed ('' @ Itoa (StatusCode resp)
                     @ '') and body read failed: '' @ e)))
         | (body, None) \<Rightarrow>
             Some (ApiError (''HTTP request failed ('' @ Itoa (StatusCode resp) @ ''): '' @ body)
                     (isHTTPClientError (StatusCode resp))))
      else None)"

definition ReportEvent ::
  "env \<Rightarrow> CacophonyAPI \<Rightarrow> string \<Rightarrow> Time list \<Rightarrow> world \<Rightarrow> error option outcome \<times> CacophonyAPI \<times> world" where
  "ReportEvent E api jsonDetails times' w =
     (case json_Unmarshal_map (json_codec E) jsonDetails of
        UError e \<Rightarrow> (Return (Some (Plain e)), api, w)
      | UMap None \<Rightarrow> (Panic ''assignment to entry in nil map'', api, w)
      | UMap (Some details) \<Rightarrow>
          (let dateTimes = map formatTimestamp times';
               details' = map_assign ''dateTimes'' (GSlice (map GString dateTimes)) details;
               jsonAll = json_Marshal (json_codec E) (GMap details')
           in case url_error E (serverURL api @ ''/api/v1/events'') of
                Some e \<Rightarrow> (Return (Some (Plain e)), api, w)
              | None \<Rightarrow>
                  (case client_Do E (events_request api jsonAll) w of
                     (Inl e, w') \<Rightarrow> (Return (Some (temporaryError (Plain e))), api, w')
                   | (Inr resp, w') \<Rightarrow> (Return (report_response resp), api, w'))))"

subsection \<open>Example servers\<close>

text \<open>
  Concrete worlds for the examples: no file, no directory and no event yet; a server
  that accepts every URL, where no call of the operating system fails, and whose
  responses are decoded as \<open>encoding/json\<close> decodes these bodies.  The details of the
  examples have only ASCII strings and numbers that are small integers or out of range,
  on which the codec does not consult its parameters.
\<close>

definition demo_codec :: codec where
  "demo_codec =
     \<lparr>float64_text = (\<lambda>lit. lit), unquote_other = (\<lambda>s. s),
      quote_other = (\<lambda>s. CHR 0x22 # s @ [CHR 0x22])\<rparr>"

definition world0 :: world where
  "world0 = \<lparr>trace = [], files = Map.empty, dirs = {}\<rparr>"

definition ok_response :: "string \<Rightarrow> response" where
  "ok_response b = \<lparr>StatusCode = 200, Status = ''200 OK'', Body = \<lparr>data = b, read_error = None\<rparr>\<rparr>"

definition demo_decode_token :: "stream \<Rightarrow> string + tokenResponse" where
  \<open>demo_decode_token b =
     (if data b = ''{"success":true,"token":"t0k"}''
      then Inr \<lparr>Success = True, Messages = [], Token = ''t0k''\<rparr>
      else if data b = ''{"success":false,"messages":["bad creds"]}''
      then Inr \<lparr>Success = False, Messages = [''bad creds''], Token = []\<rparr>
      else if data b = ''{"success":false,"messages":[]}''
      then Inr \<lparr>Success = False, Messages = [], Token = []\<rparr>
      else Inl ''unexpected end of JSON input'')\<close>

definition demo_decode_file :: "stream \<Rightarrow> string + fileResponse" where
  \<open>demo_decode_file b =
     (if data b = ''{"jwt":"j5"}'' then Inr \<lparr>Jwt = ''j5''\<rparr>
      else if data b = ''{"jwt":"j7"}'' then Inr \<lparr>Jwt = ''j7''\<rparr>
      else Inl ''unexpected end of JSON input'')\<close>

definition demo_env :: "(event list \<Rightarrow> request \<Rightarrow> string + response) \<Rightarrow> env" where
  "demo_env rt =
     \<lparr>url_error = (\<lambda>u. None), round_trip = rt, os_error = (\<lambda>tr ev. None),
      json_codec = demo_codec,
      decode_tokenResponse = demo_decode_token, decode_fileResponse = demo_decode_file,
      decode_scheduleResponse = (\<lambda>b. Inl ''unexpected end of JSON input'')\<rparr>"

definition granting :: "event list \<Rightarrow> request \<Rightarrow> string + response" where
  \<open>granting tr req = Inr (ok_response ''{"success":true,"token":"t0k"}'')\<close>

definition refusing :: "event list \<Rightarrow> request \<Rightarrow> string + response" where
  \<open>refusing tr req = Inr (ok_response ''{"success":false,"messages":["bad creds"]}'')\<close>

definition demo_session :: CacophonyAPI where
  "demo_session = (new_session ''http://api'' ''birds'' ''dev1'' ''pw'')\<lparr>token := ''t0k''\<rparr>"


definition not_found :: "event list \<Rightarrow> request \<Rightarrow> string + response" where
  "not_found tr req =
     Inr \<lparr>StatusCode = 404, Status = ''404 Not Found'',
          Body = \<lparr>data = ''no such device'', read_error = None\<rparr>\<rparr>"

text \<open>A response of status 404 whose body cannot be read: the connection is cut.\<close>

definition cut_off :: "event list \<Rightarrow> request \<Rightarrow> string + response" where
  "cut_off tr req =
     Inr \<lparr>StatusCode = 404, Status = ''404 Not Found'',
          Body = \<lparr>data = [], read_error = Some ''unexpected EOF''\<rparr>\<rparr>"


text \<open>
  A server that issues the signed token \<open>j5\<close> for file 5 and refuses every download, and a
  world in which the destination already holds a file.
\<close>

definition expired :: "event list \<Rightarrow> request \<Rightarrow> string + response" where
  \<open>expired tr req =
     (if req_url req = ''http://api/api/v1/files/5'' then Inr (ok_response ''{"jwt":"j5"}'')
      else Inr \<lparr>StatusCode = 403, Status = ''403 Forbidden'',
                Body = \<lparr>data = [], read_error = None\<rparr>\<rparr>)\<close>

definition world_old :: world where
  "world_old = \<lparr>trace = [], files = [''d/5'' \<mapsto> ''old''], dirs = {''d''}\<rparr>"




subsection \<open>Theorems\<close>


text \<open>
  C3.  For every error value: an error of the package's \<open>Error\<close> type is classified by
  the flag it carries, and every error of any other type is classified permanent.  In
  particular what \<open>temporaryError\<close> builds is classified temporary, whatever it wraps.
\<close>

theorem IsPermanentError_classifies:
  "IsPermanentError (Some (ApiError m p)) = p
   \<and> IsPermanentError (Some (Plain t)) = True
   \<and> IsPermanentError (Some (temporaryError err)) = False"
  by (simp add: temporaryError_def)

lemma new_session_sel [simp]:
  "serverURL (new_session s g d p) = s" "group_name (new_session s g d p) = g"
  "deviceName (new_session s g d p) = d" "password (new_session s g d p) = p"
  "token (new_session s g d p) = []" "justRegistered (new_session s g d p) = False"
  by (simp_all add: new_session_def)

lemma demo_payload:
  \<open>json_Marshal demo_codec (credentials (new_session ''http://api'' ''birds'' ''dev1'' ''pw''))
     = ''{"devicename":"dev1","password":"pw"}''\<close>
  by code_simp

lemma demo_env_sel [simp]:
  "json_codec (demo_env rt) = demo_codec" "url_error (demo_env rt) = (\<lambda>u. None)"
  "round_trip (demo_env rt) = rt" "os_error (demo_env rt) = (\<lambda>tr ev. None)"
  "decode_tokenResponse (demo_env rt) = demo_decode_token"
  "decode_fileResponse (demo_env rt) = demo_decode_file"
  by (simp_all add: demo_env_def)

text \<open>
  C4.  Whatever the server URL, the group and the device name, \<open>NewAPI\<close> with the empty
  password returns no session and the error \<open>no password set\<close>, and leaves the world as it
  was: the trace has no new event, so no request reached the transport.
\<close>

theorem NewAPI_empty_password:
  "NewAPI E serverURL' group' deviceName' [] w
     = (Return (None, Some (Plain ''no password set'')), w)"
  by (simp add: NewAPI_def newToken_def new_session_def)

text \<open>
  C2, as the code has it.  The field \<open>justRegistered\<close> is never written: a session that
  \<open>NewAPI\<close> returns holds the issued token, and \<open>JustRegistered\<close> is false on it.  First the
  claim refuted at a server that answers \<open>{"success":true,"token":"t0k"}\<close>.
\<close>

theorem authenticated_session_is_not_justRegistered:
  \<open>NewAPI (demo_env granting) ''http://api'' ''birds'' ''dev1'' ''pw'' world0
     = (Return (Some demo_session, None),
        emit (RoundTrip (token_request demo_session ''{"devicename":"dev1","password":"pw"}'')) world0)
   \<and> token demo_session = ''t0k'' \<and> JustRegistered demo_session = False\<close>
  by (simp add: NewAPI_def Let_def newToken_def demo_payload http_send_def client_Do_def
      granting_def ok_response_def demo_decode_token_def demo_session_def
      JustRegistered_def token_request_def)

text \<open>
  C2 amended.  For every authentication call that receives a well-formed response with
  the success flag true, the session returned stores the issued token, and
  \<open>JustRegistered\<close> returns false on it.
\<close>

theorem NewAPI_stores_token:
  assumes "password' \<noteq> []"
    and "payload = json_Marshal (json_codec E)
           (credentials (new_session serverURL' group' deviceName' password'))"
    and "url_error E (serverURL' @ ''/authenticate_device'') = None"
    and "round_trip E (trace w)
           (token_request (new_session serverURL' group' deviceName' password') payload) = Inr postResp"
    and "decode_tokenResponse E (Body postResp) = Inr resp"
    and "Success resp"
  shows "NewAPI E serverURL' group' deviceName' password' w
           = (Return (Some ((new_session serverURL' group' deviceName' password')\<lparr>token := Token resp\<rparr>),
                      None),
              emit (RoundTrip (token_request (new_session serverURL' group' deviceName' password')
                      payload)) w)
         \<and> token ((new_session serverURL' group' deviceName' password')\<lparr>token := Token resp\<rparr>)
           = Token resp
         \<and> JustRegistered ((new_session serverURL' group' deviceName' password')\<lparr>token := Token resp\<rparr>)
           = False"
  using assms
  by (simp add: NewAPI_def Let_def newToken_def http_send_def client_Do_def JustRegistered_def
      token_request_def)

theorem NewAPI_stores_token_witness:
  \<open>\<exists>api w'. NewAPI (demo_env granting) ''http://api'' ''birds'' ''dev1'' ''pw'' world0
               = (Return (Some api, None), w')
           \<and> token api = ''t0k'' \<and> JustRegistered api = False\<close>
  using NewAPI_stores_token [where password' = "''pw''" and serverURL' = "''http://api''"
      and group' = "''birds''" and deviceName' = "''dev1''" and E = "demo_env granting"
      and w = world0 and postResp = \<open>ok_response ''{"success":true,"token":"t0k"}''\<close>
      and resp = "\<lparr>Success = True, Messages = [], Token = ''t0k''\<rparr>", OF _ refl]
  by (simp add: granting_def ok_response_def demo_decode_token_def)

text \<open>
  C6, as the code has it.  The message of the error is \<open>registration failed: \<close> followed
  by the server's first message, not the server's message alone.  First the claim
  refuted at a server that answers \<open>{"success":false,"messages":["bad creds"]}\<close>.
\<close>

theorem refused_message_has_prefix:
  \<open>demo_decode_token (Body (ok_response ''{"success":false,"messages":["bad creds"]}''))
      = Inr \<lparr>Success = False, Messages = [''bad creds''], Token = []\<rparr>
   \<and> fst (NewAPI (demo_env refusing) ''http://api'' ''birds'' ''dev1'' ''pw'' world0)
      = Return (None, Some (Plain ''registration failed: bad creds''))
   \<and> Error_text (Plain ''registration failed: bad creds'') \<noteq> ''bad creds''\<close>
  by (simp add: NewAPI_def Let_def newToken_def demo_payload http_send_def client_Do_def
      refusing_def ok_response_def demo_decode_token_def message_def
      token_request_def)

text \<open>
  C6 amended.  For every authentication call that receives a well-formed response whose
  success flag is false, no session is returned and the message of the error is
  \<open>registration failed: \<close> followed by the first entry of the server's list of messages,
  or by \<open>unknown\<close> when the list is empty.
\<close>

theorem NewAPI_refused_message:
  assumes "password' \<noteq> []"
    and "payload = json_Marshal (json_codec E)
           (credentials (new_session serverURL' group' deviceName' password'))"
    and "url_error E (serverURL' @ ''/authenticate_device'') = None"
    and "round_trip E (trace w)
           (token_request (new_session serverURL' group' deviceName' password') payload) = Inr postResp"
    and "decode_tokenResponse E (Body postResp) = Inr resp"
    and "\<not> Success resp"
  shows "fst (NewAPI E serverURL' group' deviceName' password' w)
           = Return (None, Some (Plain (''registration failed: ''
                @ (case Messages resp of [] \<Rightarrow> ''unknown'' | m # ms \<Rightarrow> m))))"
  using assms
  by (simp add: NewAPI_def Let_def newToken_def http_send_def client_Do_def message_def
      token_request_def split: list.splits)

theorem NewAPI_refused_message_witness:
  \<open>fst (NewAPI (demo_env refusing) ''http://api'' ''birds'' ''dev1'' ''pw'' world0)
      = Return (None, Some (Plain ''registration failed: bad creds''))\<close>
  using NewAPI_refused_message [where password' = "''pw''" and serverURL' = "''http://api''"
      and group' = "''birds''" and deviceName' = "''dev1''" and E = "demo_env refusing"
      and w = world0
      and postResp = \<open>ok_response ''{"success":false,"messages":["bad creds"]}''\<close>
      and resp = "\<lparr>Success = False, Messages = [''bad creds''], Token = []\<rparr>", OF _ refl]
  by (simp add: refusing_def ok_response_def demo_decode_token_def)

lemma parse_empty_object: "json_parse ''{}'' = Some (SObj [])"
  by code_simp

lemma parse_null: "json_parse ''null'' = Some SNull"
  by code_simp






lemma unmarshal_empty_object: "json_Unmarshal_map C ''{}'' = UMap (Some [])"
  by (simp add: json_Unmarshal_map_def parse_empty_object)

lemma unmarshal_null: "json_Unmarshal_map C ''null'' = UMap None"
  by (simp add: json_Unmarshal_map_def parse_null)


lemma marshal_no_times:
  \<open>json_Marshal demo_codec
       (GMap (map_assign ''dateTimes'' (GSlice (map GString (map formatTimestamp []))) []))
     = ''{"dateTimes":[]}''\<close>
  by code_simp



text \<open>
  Once the details are parsed and written again and the URL is accepted, \<open>ReportEvent\<close>
  sends one request and its result is read off the transport's answer.
\<close>

lemma ReportEvent_sends:
  assumes "json_Unmarshal_map (json_codec E) jsonDetails = UMap (Some details)"
    and "jsonAll = json_Marshal (json_codec E) (GMap (map_assign ''dateTimes''
           (GSlice (map GString (map formatTimestamp times'))) details))"
    and "url_error E (serverURL api @ ''/api/v1/events'') = None"
  shows "ReportEvent E api jsonDetails times' w =
     (case round_trip E (trace w) (events_request api jsonAll) of
        Inl e \<Rightarrow> Return (Some (temporaryError (Plain e)))
      | Inr resp \<Rightarrow> Return (report_response resp),
      api, emit (RoundTrip (events_request api jsonAll)) w)"
  using assms
  by (simp add: ReportEvent_def Let_def client_Do_def del: json_Marshal.simps split: sum.splits)

text \<open>
  C1, as the code has it.  A status in [400,500) is a permanent error only when the body
  of the response can be read; when reading it fails the error is temporary.  First the
  claim refuted at a response of status 404 whose body cannot be read.
\<close>

theorem unreadable_body_is_temporary:
  \<open>round_trip (demo_env cut_off) (trace world0) (events_request demo_session ''{"dateTimes":[]}'')
     = Inr \<lparr>StatusCode = 404, Status = ''404 Not Found'',
            Body = \<lparr>data = [], read_error = Some ''unexpected EOF''\<rparr>\<rparr>
   \<and> fst (ReportEvent (demo_env cut_off) demo_session ''{}'' [] world0)
     = Return (Some (ApiError ''request failed (404) and body read failed: unexpected EOF'' False))
   \<and> IsPermanentError
        (Some (ApiError ''request failed (404) and body read failed: unexpected EOF'' False))
     = False\<close>
proof -
  have "Itoa 404 = ''404''" by code_simp
  then show ?thesis
    by (simp add: ReportEvent_sends [OF unmarshal_empty_object refl] marshal_no_times
        cut_off_def report_response_def ReadAll_def isHTTPSuccess_def temporaryError_def)
qed

text \<open>
  C1 amended.  For every call of \<open>ReportEvent\<close> that reaches the transport: a transport
  failure returns a temporary error; a response of status 2xx returns success; any other
  response returns an error, which is permanent exactly when the status is in [400,500)
  and the body of the response could be read, and temporary otherwise.
\<close>

theorem ReportEvent_classifies:
  assumes "json_Unmarshal_map (json_codec E) jsonDetails = UMap (Some details)"
    and "jsonAll = json_Marshal (json_codec E) (GMap (map_assign ''dateTimes''
           (GSlice (map GString (map formatTimestamp times'))) details))"
    and "url_error E (serverURL api @ ''/api/v1/events'') = None"
  shows "case round_trip E (trace w) (events_request api jsonAll) of
           Inl e \<Rightarrow>
             \<exists>err. fst (ReportEvent E api jsonDetails times' w) = Return (Some err)
               \<and> IsPermanentError (Some err) = False
         | Inr resp \<Rightarrow>
             if 200 \<le> StatusCode resp \<and> StatusCode resp < 300
             then fst (ReportEvent E api jsonDetails times' w) = Return None
             else \<exists>err. fst (ReportEvent E api jsonDetails times' w) = Return (Some err)
               \<and> IsPermanentError (Some err)
                   = (read_error (Body resp) = None
                      \<and> 400 \<le> StatusCode resp \<and> StatusCode resp < 500)"
  by (simp add: ReportEvent_sends [OF assms] report_response_def ReadAll_def isHTTPSuccess_def
      isHTTPClientError_def temporaryError_def split: sum.splits option.splits)

theorem ReportEvent_classifies_witness:
  "\<exists>err. fst (ReportEvent (demo_env not_found) demo_session ''{}'' [] world0) = Return (Some err)
     \<and> IsPermanentError (Some err) = True"
  using ReportEvent_classifies [OF unmarshal_empty_object refl,
      where E = "demo_env not_found" and api = demo_session and w = world0 and times' = "[]"]
  by (simp add: not_found_def)





text \<open>
  C7.  The detail \<open>null\<close> is not a JSON object, and \<open>ReportEvent\<close> does not return an
  error on it: \<open>json.Unmarshal\<close> accepts \<open>null\<close> and leaves the map nil, and the assignment
  of \<open>dateTimes\<close> to the nil map panics.
\<close>

theorem ReportEvent_null_panics:
  "ReportEvent E api ''null'' times' w = (Panic ''assignment to entry in nil map'', api, w)"
  by (simp add: ReportEvent_def unmarshal_null)

text \<open>
  On every other detail that is not a JSON object (a syntax error, or a value that is
  neither an object nor \<open>null\<close>) an error that \<open>IsPermanentError\<close> classifies permanent is
  returned, and the session and the world are as before: no request was sent.
\<close>

lemma ReportEvent_rejects_malformed:
  assumes "case json_parse jsonDetails of
             None \<Rightarrow> True | Some SNull \<Rightarrow> False | Some (SObj ms) \<Rightarrow> False | Some v \<Rightarrow> True"
  shows "\<exists>e. ReportEvent E api jsonDetails times' w = (Return (Some (Plain e)), api, w)
           \<and> IsPermanentError (Some (Plain e))"
  using assms
  by (auto simp: ReportEvent_def json_Unmarshal_map_def split: option.splits jsyn.splits)

lemma emit_simps [simp]:
  "trace (emit e w) = trace w @ [e]" "files (emit e w) = files w" "dirs (emit e w) = dirs w"
  by (simp_all add: emit_def)

text \<open>What each operation leaves of the session.\<close>

lemma newToken_session:
  "fst (snd (newToken E api w)) =
     (if fst (newToken E api w) = Return None
      then api\<lparr>token := token (fst (snd (newToken E api w)))\<rparr> else api)"
  by (simp add: newToken_def Let_def http_send_def client_Do_def
      split: option.splits prod.splits sum.splits)

lemma getFileFromJWT_session: "fst (snd (getFileFromJWT E api jwt path w)) = api"
  by (simp add: getFileFromJWT_def split: option.splits prod.splits sum.splits)

lemma GetFile_session: "fst (snd (GetFile E api fileID path w)) = api"
  by (simp add: GetFile_def getFileFromJWT_session split: option.splits prod.splits sum.splits)

lemma fetch_each_session: "fst (snd (fetch_each E api fileFolder ids w)) = api"
proof (induction ids arbitrary: api w)
  case Nil
  then show ?case by simp
next
  case (Cons fileID rest)
  obtain r api' w' where
    g: "GetFile E api fileID (filepath_Join [fileFolder, Itoa fileID]) w = (r, api', w')"
    by (cases "GetFile E api fileID (filepath_Join [fileFolder, Itoa fileID]) w") auto
  then have "api' = api"
    using GetFile_session [of E api fileID "filepath_Join [fileFolder, Itoa fileID]" w] by simp
  with g Cons.IH [of api w'] show ?case
    by (auto split: outcome.splits option.splits)
qed

lemma GetFilesFromSchedule_session:
  "fst (snd (GetFilesFromSchedule E api schedule fileFolder w)) = api"
  by (simp add: GetFilesFromSchedule_def fetch_each_session split: option.splits prod.splits)

lemma GetSchedule_session: "fst (snd (GetSchedule E api w)) = api"
  by (simp add: GetSchedule_def Let_def split: option.splits prod.splits sum.splits)

lemma ReportEvent_session: "fst (snd (ReportEvent E api jsonDetails times' w)) = api"
  by (simp add: ReportEvent_def Let_def del: json_Marshal.simps
      split: unmarshalled.splits option.splits prod.splits sum.splits)

text \<open>
  C9.  The session that \<open>NewAPI\<close> builds has the empty token; \<open>newToken\<close> leaves the session
  as it was unless it succeeds, and changes no field but the token; \<open>GetSchedule\<close>,
  \<open>GetFile\<close>, \<open>GetFilesFromSchedule\<close> and \<open>ReportEvent\<close> leave every field of the session
  unchanged, whatever they return.
\<close>

theorem token_written_by_newToken_only:
  "token (new_session serverURL' group' deviceName' password') = []
   \<and> (fst (newToken E api w) \<noteq> Return None \<longrightarrow> fst (snd (newToken E api w)) = api)
   \<and> fst (snd (newToken E api w)) = api\<lparr>token := token (fst (snd (newToken E api w)))\<rparr>
   \<and> fst (snd (GetSchedule E api w)) = api
   \<and> fst (snd (GetFile E api fileID path w)) = api
   \<and> fst (snd (GetFilesFromSchedule E api schedule fileFolder w)) = api
   \<and> fst (snd (ReportEvent E api jsonDetails times' w)) = api"
  using newToken_session [of E api w]
  by (simp add: GetSchedule_session GetFile_session GetFilesFromSchedule_session
      ReportEvent_session split: if_splits)

theorem token_written_by_newToken_only_witness:
  "fst (newToken (demo_env granting) (new_session ''http://api'' ''birds'' ''dev1'' []) world0)
     = Return (Some (Plain ''no password set''))
   \<and> token (fst (snd (newToken (demo_env granting)
               (new_session ''http://api'' ''birds'' ''dev1'' []) world0))) = []"
  using token_written_by_newToken_only [of "''http://api''" "''birds''" "''dev1''" "[]"
     "demo_env granting" "new_session ''http://api'' ''birds'' ''dev1'' []" world0]
  by (simp add: newToken_def)

text \<open>
  C10.  Once \<open>GetFile\<close> has the signed token, it creates the file at the destination
  before it sends the download request: when the download then fails, by a transport
  error or a status other than 200, \<open>GetFile\<close> returns an error, the events are the
  metadata request, the creation of the file and the download request in this order,
  and the file at the destination is empty whatever it held.
\<close>

theorem GetFile_truncates_before_download:
  assumes "url_error E (req_url (file_request api fileID)) = None"
    and "round_trip E (trace w) (file_request api fileID) = Inr resp"
    and "decode_fileResponse E (Body resp) = Inr fr"
    and "os_error E (trace w @ [RoundTrip (file_request api fileID)]) (Create path) = None"
    and "url_error E (req_url (signed_request api (Jwt fr))) = None"
    and "case round_trip E (trace w @ [RoundTrip (file_request api fileID), Create path])
                (signed_request api (Jwt fr)) of
           Inl e \<Rightarrow> True
         | Inr download \<Rightarrow> StatusCode download \<noteq> 200"
  shows "\<exists>err. GetFile E api fileID path w =
           (Return (Some err), api,
            w\<lparr>trace := trace w @ [RoundTrip (file_request api fileID), Create path,
                                  RoundTrip (signed_request api (Jwt fr))],
              files := (files w)(path \<mapsto> [])\<rparr>)"
  using assms
  by (auto simp: GetFile_def getFileFromJWT_def client_Do_def http_send_def os_Create_def
      emit_def split: sum.splits)

theorem GetFile_truncates_before_download_witness:
  "files world_old ''d/5'' = Some ''old''
   \<and> (\<exists>err. GetFile (demo_env expired) demo_session 5 ''d/5'' world_old =
        (Return (Some err), demo_session,
         world_old\<lparr>trace := trace world_old @ [RoundTrip (file_request demo_session 5),
                                  Create ''d/5'', RoundTrip (signed_request demo_session ''j5'')],
              files := (files world_old)(''d/5'' \<mapsto> [])\<rparr>))"
proof -
  have i: "Itoa 5 = ''5''" by code_simp
  show ?thesis
    using GetFile_truncates_before_download [of "demo_env expired" demo_session 5 world_old
       \<open>ok_response ''{"jwt":"j5"}''\<close> "\<lparr>Jwt = ''j5''\<rparr>" "''d/5''"]
    by (simp add: expired_def file_request_def signed_request_def demo_session_def i
        ok_response_def demo_decode_file_def world_old_def)
qed














end
